theory Spec2Isabelle
  imports Complex_Main "HOL-Library.Sublist"
begin

section \<open>Season classifier\<close>

text \<open>
  \<^verbatim>\<open>get_season(month)\<close> of \<^verbatim>\<open>src/main.py\<close>: a missing month (\<^verbatim>\<open>pd.isna\<close>) gives
  \<^verbatim>\<open>None\<close>; otherwise the month is converted with \<^verbatim>\<open>int\<close> and tested against three
  lists in turn, with \<^verbatim>\<open>'Fall'\<close> as the final fall-through. The month is an
  \<open>int option\<close>, \<open>None\<close> standing for the missing value.
\<close>

datatype season = Winter | Spring | Summer | Fall

fun get_season :: "int option \<Rightarrow> season option" where
  "get_season None = None"
| "get_season (Some month) =
     (if month \<in> set [12, 1, 2] then Some Winter
      else if month \<in> set [3, 4, 5] then Some Spring
      else if month \<in> set [6, 7, 8] then Some Summer
      else Some Fall)"

text \<open>The fixed mapping the specification gives for the months 1 to 12.\<close>

definition season_table :: "(int \<times> season) list" where
  "season_table =
     [(12, Winter), (1, Winter), (2, Winter),
      (3, Spring), (4, Spring), (5, Spring),
      (6, Summer), (7, Summer), (8, Summer),
      (9, Fall), (10, Fall), (11, Fall)]"

section \<open>Tables\<close>

text \<open>
  A pandas \<^verbatim>\<open>DataFrame\<close> is a list of column names and a list of rows; a row gives
  a cell for every column name (only the names in \<open>columns\<close> are part of the table).
  A cell is a text, a number, a timestamp (nanoseconds since the epoch, as pandas stores
  it) or one of the two missing values: \<open>NaN\<close> in a numeric or text column, \<open>NaT\<close>
  in a datetime column. Numbers are exact reals and timestamps unbounded integers: the
  rounding of 64-bit floats and the bounds of 64-bit timestamps are not modelled.
\<close>

datatype cell = Str string | Num real | Ts int | NaN | NaT

type_synonym row = "string \<Rightarrow> cell"

record dataframe =
  columns :: "string list"
  rows :: "row list"

datatype py_error =
  FileNotFoundError | KeyError | TypeError | ValueError | AttributeError | OtherError

fun isna :: "cell \<Rightarrow> bool" where
  "isna NaN = True"
| "isna NaT = True"
| "isna _ = False"

text \<open>\<^verbatim>\<open>df[col]\<close> read as a column, and the assignment \<^verbatim>\<open>df[col] = values\<close>, which
  replaces the column or appends a new one and pairs the values with the rows by
  position.\<close>

definition get_column :: "dataframe \<Rightarrow> string \<Rightarrow> cell list" where
  "get_column df col = map (\<lambda>r. r col) (rows df)"

definition set_column :: "dataframe \<Rightarrow> string \<Rightarrow> cell list \<Rightarrow> dataframe" where
  "set_column df col vals =
     \<lparr>columns = (if col \<in> set (columns df) then columns df else columns df @ [col]),
      rows = map (\<lambda>(r, v). r(col := v)) (zip (rows df) vals)\<rparr>"

text \<open>
  The functions of the pandas library that the program calls on single values are
  parameters of the model, collected in one record: reading a number from a text
  (\<^verbatim>\<open>pd.to_numeric(..., errors='coerce')\<close>, \<open>None\<close> where pandas gives NaN), printing
  a number or a timestamp (\<^verbatim>\<open>astype(str)\<close>), reading a date with failures coerced
  (\<^verbatim>\<open>pd.to_datetime(..., errors='coerce')\<close>) or raised (\<^verbatim>\<open>pd.to_datetime(...)\<close>, where
  a text may also read as NaT), the calendar fields of a timestamp, the sum of a
  group of values that are not all numbers, and Python's \<^verbatim>\<open>int\<close> on a text.
\<close>

record pandas =
  to_numeric_str :: "string \<Rightarrow> real option"
  str_of_num :: "real \<Rightarrow> string"
  str_of_ts :: "int \<Rightarrow> string"
  to_datetime :: "cell \<Rightarrow> int option"
  to_datetime_strict :: "string \<Rightarrow> py_error + int option"
  dt_month :: "int \<Rightarrow> int"
  dt_day_name :: "int \<Rightarrow> string"
  dt_year :: "int \<Rightarrow> int"
  sum_object :: "cell list \<Rightarrow> py_error + cell"
  int_of_str :: "string \<Rightarrow> py_error + int"

text \<open>What the program prints or writes, one constructor for each message.\<close>

datatype event =
    Loaded nat nat
  | Error_loading py_error
  | Warn_nan nat string
  | Warn_dates nat string
  | Columns_available "string list"
  | Skipping string
  | Saved_plot string
  | No_holiday_releases
  | Saved_holiday_table
  | Top_titles_unavailable
  | Top_titles "string list" "row list"
  | All_saved

section \<open>Column normalizer\<close>

text \<open>
  \<^verbatim>\<open>clean_hours(df, col)\<close>: a missing column raises \<^verbatim>\<open>KeyError\<close>. Otherwise every value
  of the column is turned into text, its commas are removed, the surrounding whitespace
  is stripped and the text is read as a number, NaN where that fails; the number of NaN
  is reported when it is not zero.
\<close>

definition astype_str :: "pandas \<Rightarrow> cell \<Rightarrow> string" where
  "astype_str L c =
     (case c of Str s \<Rightarrow> s | Num v \<Rightarrow> str_of_num L v | Ts t \<Rightarrow> str_of_ts L t
      | NaN \<Rightarrow> ''nan'' | NaT \<Rightarrow> ''NaT'')"

definition str_replace_comma :: "string \<Rightarrow> string" where
  "str_replace_comma s = filter (\<lambda>c. c \<noteq> CHR '','') s"

text \<open>The characters that Python's \<^verbatim>\<open>str.strip()\<close> removes, within ASCII.\<close>

definition is_space :: "char \<Rightarrow> bool" where
  "is_space c = (c \<in> set [CHR '' '', CHR 0x09, CHR 0x0A, CHR 0x0B, CHR 0x0C, CHR 0x0D,
                           CHR 0x1C, CHR 0x1D, CHR 0x1E, CHR 0x1F])"

definition str_strip :: "string \<Rightarrow> string" where
  "str_strip s = rev (dropWhile is_space (rev (dropWhile is_space s)))"

definition to_numeric :: "pandas \<Rightarrow> string \<Rightarrow> cell" where
  "to_numeric L s = (case to_numeric_str L s of Some v \<Rightarrow> Num v | None \<Rightarrow> NaN)"

definition clean_cell :: "pandas \<Rightarrow> cell \<Rightarrow> cell" where
  "clean_cell L c = to_numeric L (str_strip (str_replace_comma (astype_str L c)))"

definition clean_hours ::
  "pandas \<Rightarrow> dataframe \<Rightarrow> string \<Rightarrow> py_error + dataframe \<times> event list" where
  "clean_hours L df col =
     (if col \<notin> set (columns df) then Inl KeyError
      else
        let texts = map (\<lambda>c. str_strip (str_replace_comma (astype_str L c))) (get_column df col);
            df' = set_column df col (map (to_numeric L) texts);
            num_missing = length (filter isna (get_column df' col))
        in Inr (df', if num_missing \<noteq> 0 then [Warn_nan num_missing col] else []))"

section \<open>A library instance: decimal integers and ISO dates\<close>

text \<open>
  An executable instance of the library record, used to run the model on concrete
  tables. It reads and prints non-negative integers in decimal, reads dates written
  \<^verbatim>\<open>YYYY-MM-DD\<close> as midnight timestamps, and computes the calendar fields of a
  timestamp in the proleptic Gregorian calendar.
\<close>

definition digit_of :: "char \<Rightarrow> nat option" where
  "digit_of = map_of
     [(CHR ''0'', 0), (CHR ''1'', 1), (CHR ''2'', 2), (CHR ''3'', 3), (CHR ''4'', 4),
      (CHR ''5'', 5), (CHR ''6'', 6), (CHR ''7'', 7), (CHR ''8'', 8), (CHR ''9'', 9)]"

fun read_digits :: "nat \<Rightarrow> string \<Rightarrow> nat option" where
  "read_digits acc [] = Some acc"
| "read_digits acc (c # cs) =
     (case digit_of c of None \<Rightarrow> None | Some d \<Rightarrow> read_digits (10 * acc + d) cs)"

definition read_decimal :: "string \<Rightarrow> real option" where
  "read_decimal s = (if s = [] then None else map_option real (read_digits 0 s))"

definition digit_char :: "nat \<Rightarrow> char" where
  "digit_char d = ''0123456789'' ! (d mod 10)"

fun show_nat :: "nat \<Rightarrow> string" where
  "show_nat n = (if n < 10 then [digit_char n] else show_nat (n div 10) @ [digit_char n])"

declare show_nat.simps [simp del]

definition ns_per_day :: int where
  "ns_per_day = 86400000000000"

definition days_from_civil :: "int \<Rightarrow> int \<Rightarrow> int \<Rightarrow> int" where
  "days_from_civil y m d =
     (let y' = (if m \<le> 2 then y - 1 else y);
          era = y' div 400;
          yoe = y' - era * 400;
          doy = (153 * (if m > 2 then m - 3 else m + 9) + 2) div 5 + d - 1;
          doe = yoe * 365 + yoe div 4 - yoe div 100 + doy
      in era * 146097 + doe - 719468)"

definition civil_from_days :: "int \<Rightarrow> int \<times> int \<times> int" where
  "civil_from_days z0 =
     (let z = z0 + 719468;
          era = z div 146097;
          doe = z - era * 146097;
          yoe = (doe - doe div 1460 + doe div 36524 - doe div 146096) div 365;
          doy = doe - (365 * yoe + yoe div 4 - yoe div 100);
          mp = (5 * doy + 2) div 153;
          d = doy - (153 * mp + 2) div 5 + 1;
          m = (if mp < 10 then mp + 3 else mp - 9);
          y = yoe + era * 400 + (if m \<le> 2 then 1 else 0)
      in (y, m, d))"

definition days_in_month :: "int \<Rightarrow> int \<Rightarrow> int" where
  "days_in_month y m =
     (if m = 2 then (if y mod 4 = 0 \<and> (y mod 100 \<noteq> 0 \<or> y mod 400 = 0) then 29 else 28)
      else if m \<in> set [4, 6, 9, 11] then 30 else 31)"

definition read_iso_date :: "string \<Rightarrow> int option" where
  "read_iso_date s =
     (if length s = 10 \<and> s ! 4 = CHR ''-'' \<and> s ! 7 = CHR ''-'' then
        (case (read_digits 0 (take 4 s), read_digits 0 (take 2 (drop 5 s)),
               read_digits 0 (drop 8 s)) of
           (Some y, Some m, Some d) \<Rightarrow>
             if 1 \<le> m \<and> m \<le> 12 \<and> 1 \<le> d \<and> int d \<le> days_in_month (int y) (int m)
             then Some (days_from_civil (int y) (int m) (int d) * ns_per_day)
             else None
         | _ \<Rightarrow> None)
      else None)"

definition weekday_names :: "string list" where
  "weekday_names =
     [''Monday'', ''Tuesday'', ''Wednesday'', ''Thursday'', ''Friday'', ''Saturday'', ''Sunday'']"

definition pad2 :: "nat \<Rightarrow> string" where
  "pad2 n = (if n < 10 then CHR ''0'' # show_nat n else show_nat n)"

definition iso_pandas :: pandas where
  "iso_pandas =
     \<lparr>to_numeric_str = read_decimal,
      str_of_num = (\<lambda>v. show_nat (nat \<lfloor>v\<rfloor>)),
      str_of_ts = (\<lambda>t. case civil_from_days (t div ns_per_day) of
                     (y, m, d) \<Rightarrow> show_nat (nat y) @ ''-'' @ pad2 (nat m) @ ''-'' @ pad2 (nat d)),
      to_datetime = (\<lambda>c. case c of Str s \<Rightarrow> read_iso_date s | Ts t \<Rightarrow> Some t
                     | Num v \<Rightarrow> Some \<lfloor>v\<rfloor> | NaN \<Rightarrow> None | NaT \<Rightarrow> None),
      to_datetime_strict = (\<lambda>s. case read_iso_date s of Some t \<Rightarrow> Inr (Some t)
                     | None \<Rightarrow> if s = ''NaT'' then Inr None else Inl ValueError),
      dt_month = (\<lambda>t. fst (snd (civil_from_days (t div ns_per_day)))),
      dt_day_name = (\<lambda>t. weekday_names ! nat ((t div ns_per_day + 3) mod 7)),
      dt_year = (\<lambda>t. fst (civil_from_days (t div ns_per_day))),
      sum_object = (\<lambda>cs. Inl TypeError),
      int_of_str = (\<lambda>s. case read_digits 0 s of
                      Some n \<Rightarrow> if s = [] then Inl ValueError else Inr (int n)
                    | None \<Rightarrow> Inl ValueError)\<rparr>"

section \<open>A sample table\<close>

text \<open>A row given by its named cells, and a small raw table as \<^verbatim>\<open>read_csv\<close> could
  return it: every value is still text.\<close>

definition row_of :: "(string \<times> cell) list \<Rightarrow> row" where
  "row_of kvs = (\<lambda>c. case map_of kvs c of Some v \<Rightarrow> v | None \<Rightarrow> NaN)"

definition sample_raw :: dataframe where
  "sample_raw =
     \<lparr>columns = [''Title'', ''Hours Viewed'', ''Release Date'', ''Content Type''],
      rows = [row_of [(''Title'', Str ''A''), (''Hours Viewed'', Str ''1,234''),
                      (''Release Date'', Str ''2023-12-24''), (''Content Type'', Str ''Show'')],
              row_of [(''Title'', Str ''B''), (''Hours Viewed'', Str '' 500 ''),
                      (''Release Date'', Str ''2023-12-20''), (''Content Type'', Str ''Movie'')],
              row_of [(''Title'', Str ''C''), (''Hours Viewed'', Str ''abc''),
                      (''Release Date'', Str ''soon''), (''Content Type'', Str ''Show'')]]\<rparr>"

section \<open>Date enricher\<close>

text \<open>
  \<^verbatim>\<open>prepare_dates(df, date_col)\<close>: a missing column raises \<^verbatim>\<open>KeyError\<close>. The column is
  replaced by its timestamps, NaT where the library reads no date, and the number of NaT
  is reported when it is not zero. Then the three derived columns are assigned one
  after the other, each read from \<^verbatim>\<open>df[date_col].dt\<close>: when \<open>date_col\<close> is itself
  \<^verbatim>\<open>Release Month\<close> or \<^verbatim>\<open>Release Day\<close>, the column just assigned is no datetime column any
  more and the next \<^verbatim>\<open>.dt\<close> raises \<^verbatim>\<open>AttributeError\<close>.
\<close>

definition ts_cell :: "int option \<Rightarrow> cell" where
  "ts_cell d = (case d of Some t \<Rightarrow> Ts t | None \<Rightarrow> NaT)"

definition dt_field :: "(int \<Rightarrow> cell) \<Rightarrow> cell \<Rightarrow> cell" where
  "dt_field f c = (case c of Ts t \<Rightarrow> f t | _ \<Rightarrow> NaN)"

definition prepare_dates ::
  "pandas \<Rightarrow> dataframe \<Rightarrow> string \<Rightarrow> py_error + dataframe \<times> event list" where
  "prepare_dates L df date_col =
     (if date_col \<notin> set (columns df) then Inl KeyError
      else
        let df1 = set_column df date_col
                    (map (\<lambda>c. ts_cell (to_datetime L c)) (get_column df date_col));
            missing_dates = length (filter isna (get_column df1 date_col));
            ev = (if missing_dates \<noteq> 0 then [Warn_dates missing_dates date_col] else []);
            df2 = set_column df1 ''Release Month''
                    (map (dt_field (\<lambda>t. Num (of_int (dt_month L t)))) (get_column df1 date_col))
        in if date_col = ''Release Month'' then Inl AttributeError
           else
             let df3 = set_column df2 ''Release Day''
                         (map (dt_field (\<lambda>t. Str (dt_day_name L t))) (get_column df2 date_col))
             in if date_col = ''Release Day'' then Inl AttributeError
                else
                  let df4 = set_column df3 ''Release Year''
                              (map (dt_field (\<lambda>t. Num (of_int (dt_year L t))))
                                 (get_column df3 date_col))
                  in Inr (df4, ev))"

section \<open>Holiday window matcher\<close>

text \<open>
  \<^verbatim>\<open>holiday_release_analysis(df, important_dates, window_days)\<close>. The reference dates are
  read first (\<^verbatim>\<open>pd.to_datetime\<close> on the list raises at a text that is no date). Without
  a \<^verbatim>\<open>Release Date\<close> column the analysis is skipped with an empty table. Otherwise the
  mask is computed cell by cell: a missing date gives \<^verbatim>\<open>False\<close>; a timestamp \<open>x\<close> gives
  \<^verbatim>\<open>any(abs((x - d).days) <= window_days for d in important_dates)\<close>, where \<^verbatim>\<open>.days\<close> of a
  difference is its floor in days and a NaT reference date never matches; a cell that is
  no timestamp raises \<^verbatim>\<open>TypeError\<close> at the first subtraction. The rows whose mask is true
  are kept, in the order of the table.
\<close>

definition default_important_dates :: "string list" where
  "default_important_dates =
     [''2023-01-01'', ''2023-02-14'', ''2023-07-04'', ''2023-10-31'', ''2023-12-25'']"

fun to_datetime_list :: "pandas \<Rightarrow> string list \<Rightarrow> py_error + int option list" where
  "to_datetime_list L [] = Inr []"
| "to_datetime_list L (s # ss) =
     (case to_datetime_strict L s of
        Inl e \<Rightarrow> Inl e
      | Inr d \<Rightarrow> (case to_datetime_list L ss of Inl e \<Rightarrow> Inl e | Inr ds \<Rightarrow> Inr (d # ds)))"

definition td_days :: "int \<Rightarrow> int" where
  "td_days delta = delta div ns_per_day"

definition near_any :: "int option list \<Rightarrow> int \<Rightarrow> int \<Rightarrow> bool" where
  "near_any ds window_days x =
     list_ex (\<lambda>d. case d of Some t \<Rightarrow> \<bar>td_days (x - t)\<bar> \<le> window_days | None \<Rightarrow> False) ds"

fun mask_cell :: "int option list \<Rightarrow> int \<Rightarrow> cell \<Rightarrow> py_error + bool" where
  "mask_cell ds w (Ts x) = Inr (near_any ds w x)"
| "mask_cell ds w NaN = Inr False"
| "mask_cell ds w NaT = Inr False"
| "mask_cell ds w (Str s) = (if ds = [] then Inr False else Inl TypeError)"
| "mask_cell ds w (Num v) = (if ds = [] then Inr False else Inl TypeError)"

fun apply_mask :: "int option list \<Rightarrow> int \<Rightarrow> cell list \<Rightarrow> py_error + bool list" where
  "apply_mask ds w [] = Inr []"
| "apply_mask ds w (c # cs) =
     (case mask_cell ds w c of
        Inl e \<Rightarrow> Inl e
      | Inr b \<Rightarrow> (case apply_mask ds w cs of Inl e \<Rightarrow> Inl e | Inr bs \<Rightarrow> Inr (b # bs)))"

definition boolean_index :: "dataframe \<Rightarrow> bool list \<Rightarrow> dataframe" where
  "boolean_index df msk =
     \<lparr>columns = columns df, rows = map fst (filter snd (zip (rows df) msk))\<rparr>"

definition df_empty :: "dataframe \<Rightarrow> bool" where
  "df_empty df = (rows df = [] \<or> columns df = [])"

definition holiday_release_analysis ::
  "pandas \<Rightarrow> dataframe \<Rightarrow> string list option \<Rightarrow> int \<Rightarrow> py_error + dataframe \<times> event list"
  where
  "holiday_release_analysis L df important_dates window_days =
     (case to_datetime_list L
             (case important_dates of None \<Rightarrow> default_important_dates | Some l \<Rightarrow> l) of
        Inl e \<Rightarrow> Inl e
      | Inr ds \<Rightarrow>
          if ''Release Date'' \<notin> set (columns df)
          then Inr (\<lparr>columns = [], rows = []\<rparr>, [Skipping ''holiday analysis''])
          else
            (case apply_mask ds window_days (get_column df ''Release Date'') of
               Inl e \<Rightarrow> Inl e
             | Inr msk \<Rightarrow>
                 let holiday_releases = boolean_index df msk
                 in if df_empty holiday_releases
                    then Inr (holiday_releases, [No_holiday_releases])
                    else Inr (holiday_releases, [Saved_holiday_table])))"

text \<open>The sample table after both preprocessing steps: numbers, timestamps (2023-12-24
  and 2023-12-20 at midnight) and the derived columns; the third row has neither a
  viewership value nor a date.\<close>

definition sample_enriched :: dataframe where
  "sample_enriched =
     \<lparr>columns = [''Title'', ''Hours Viewed'', ''Release Date'', ''Content Type'',
                 ''Release Month'', ''Release Day'', ''Release Year''],
      rows = [row_of [(''Title'', Str ''A''), (''Hours Viewed'', Num 1234),
                      (''Release Date'', Ts (19715 * ns_per_day)), (''Content Type'', Str ''Show''),
                      (''Release Month'', Num 12), (''Release Day'', Str ''Sunday''),
                      (''Release Year'', Num 2023)],
              row_of [(''Title'', Str ''B''), (''Hours Viewed'', Num 500),
                      (''Release Date'', Ts (19711 * ns_per_day)), (''Content Type'', Str ''Movie''),
                      (''Release Month'', Num 12), (''Release Day'', Str ''Wednesday''),
                      (''Release Year'', Num 2023)],
              row_of [(''Title'', Str ''C''), (''Hours Viewed'', NaN),
                      (''Release Date'', NaT), (''Content Type'', Str ''Show''),
                      (''Release Month'', NaN), (''Release Day'', NaN),
                      (''Release Year'', NaN)]]\<rparr>"

text \<open>The contract of the matcher in the words of the specification: the release date is
  present and its day difference from some reference date is at most the window.\<close>

definition in_window :: "int option list \<Rightarrow> int \<Rightarrow> row \<Rightarrow> bool" where
  "in_window ds w r =
     (\<exists>x. r ''Release Date'' = Ts x \<and> (\<exists>d. Some d \<in> set ds \<and> \<bar>td_days (x - d)\<bar> \<le> w))"

section \<open>Aggregator\<close>













section \<open>Top-N selector\<close>

text \<open>
  \<^verbatim>\<open>df.nlargest(n, 'Hours Viewed')\<close> with the default \<^verbatim>\<open>keep='first'\<close>, documented as the
  first \<open>n\<close> rows of the table ordered by the column in descending order: rows with a
  missing value come last, and among equal values the row that comes first in the table
  comes first. pandas refuses a column of texts (\<^verbatim>\<open>TypeError\<close>), returns no row for
  \<open>n \<le> 0\<close>, and otherwise computes the positions of the selected rows (the values
  negated and sorted by a stable sort, then the positions of the missing values) and
  takes the rows at these positions.
\<close>

fun is_str :: "cell \<Rightarrow> bool" where
  "is_str (Str s) = True"
| "is_str _ = False"

fun order_key :: "cell \<Rightarrow> real" where
  "order_key (Num v) = v"
| "order_key (Ts t) = of_int t"
| "order_key _ = 0"

definition nlargest_indexer :: "cell list \<Rightarrow> int \<Rightarrow> nat list" where
  "nlargest_indexer vals n =
     (if n \<le> 0 then []
      else
        let pos = [0..<length vals];
            dropped = filter (\<lambda>i. \<not> isna (vals ! i)) pos;
            nan_index = filter (\<lambda>i. isna (vals ! i)) pos
        in take (nat n) (sort_key (\<lambda>i. - order_key (vals ! i)) dropped @ nan_index))"

definition take_rows :: "dataframe \<Rightarrow> nat list \<Rightarrow> dataframe" where
  "take_rows df indexer = \<lparr>columns = columns df, rows = map (\<lambda>i. rows df ! i) indexer\<rparr>"

definition nlargest :: "dataframe \<Rightarrow> int \<Rightarrow> string \<Rightarrow> py_error + dataframe" where
  "nlargest df n col =
     (if col \<notin> set (columns df) then Inl KeyError
      else if list_ex is_str (get_column df col) then Inl TypeError
      else Inr (take_rows df (nlargest_indexer (get_column df col) n)))"


text \<open>
  The ranking of the specification, on positions of a column: position \<open>i\<close> ranks
  before position \<open>j\<close> when its value is larger, or equal with \<open>i\<close> first in the
  table; a missing value ranks after every value, and missing values rank in table order.
\<close>

definition ranks_before :: "cell list \<Rightarrow> nat \<Rightarrow> nat \<Rightarrow> bool" where
  "ranks_before vals i j =
     (if isna (vals ! i) then isna (vals ! j) \<and> i < j
      else isna (vals ! j) \<or> order_key (vals ! j) < order_key (vals ! i)
           \<or> (order_key (vals ! i) = order_key (vals ! j) \<and> i < j))"

text \<open>The order that a stable sort by a key produces on positions, and the list of all
  positions of a column in the order of the selection, of which \<open>nlargest_indexer\<close>
  takes a prefix.\<close>

definition lex_before :: "(nat \<Rightarrow> real) \<Rightarrow> nat \<Rightarrow> nat \<Rightarrow> bool" where
  "lex_before f i j = (f i < f j \<or> (f i = f j \<and> i < j))"

definition ranked :: "cell list \<Rightarrow> nat list" where
  "ranked vals =
     sort_key (\<lambda>i. - order_key (vals ! i)) (filter (\<lambda>i. \<not> isna (vals ! i)) [0..<length vals])
     @ filter (\<lambda>i. isna (vals ! i)) [0..<length vals]"

section \<open>Charts and the batch run\<close>











definition seasons_order :: "cell list" where
  "seasons_order = [Str ''Winter'', Str ''Spring'', Str ''Summer'', Str ''Fall'']"





record args =
  file_arg :: string
  hours_col :: string
  date_col :: string
  language_col :: string
  top_n :: int




text \<open>
  \<^verbatim>\<open>main(args)\<close>. Only the load step is inside a \<^verbatim>\<open>try\<close>; every later call runs
  unguarded, so its exception ends the run. The state is the table (the calls mutate and
  share one table) with what has been printed so far; the events of a call that raises
  are not added.
\<close>

type_synonym run = "py_error \<times> event list + dataframe \<times> event list"

definition call :: "run \<Rightarrow> (dataframe \<Rightarrow> py_error + dataframe \<times> event list) \<Rightarrow> run" where
  "call r f =
     (case r of
        Inl x \<Rightarrow> Inl x
      | Inr (df, out) \<Rightarrow>
          (case f df of Inl e \<Rightarrow> Inl (e, out) | Inr (df', ev) \<Rightarrow> Inr (df', out @ ev)))"




text \<open>Two file systems: one holds the raw sample table under the default file name, the
  other the same table without its viewership column.\<close>

definition sample_fs :: "string \<Rightarrow> (py_error + dataframe) option" where
  "sample_fs path = (if path = ''netflix_content.csv'' then Some (Inr sample_raw) else None)"








section \<open>Properties of the season classifier\<close>

lemma season_table_dom: "fst ` set season_table = {1..12}"
proof
  show "fst ` set season_table \<subseteq> {1..12}"
    by (simp add: season_table_def)
  show "{1..12} \<subseteq> fst ` set season_table"
  proof
    fix m :: int
    assume "m \<in> {1..12}"
    then have "1 \<le> m" and "m \<le> 12" by simp_all
    then have "m = 1 \<or> m = 2 \<or> m = 3 \<or> m = 4 \<or> m = 5 \<or> m = 6
        \<or> m = 7 \<or> m = 8 \<or> m = 9 \<or> m = 10 \<or> m = 11 \<or> m = 12"
      by arith
    then show "m \<in> fst ` set season_table"
      by (elim disjE) (simp_all add: season_table_def)
  qed
qed

text \<open>
  Claim C2. For every month from 1 to 12 the classifier returns the season that the fixed
  table gives (December, January, February are Winter; March to May Spring; June to August
  Summer; September to November Fall), every month from 1 to 12 has an entry in that
  table, and a missing month gives a missing season. The classifier is a function of the
  month alone.
\<close>

theorem get_season_mapping:
  "get_season None = None
   \<and> (\<forall>m \<in> {1..12}. get_season (Some m) = map_of season_table m
                     \<and> get_season (Some m) \<noteq> None)
   \<and> get_season (Some 12) = Some Winter \<and> get_season (Some 1) = Some Winter
   \<and> get_season (Some 2) = Some Winter \<and> get_season (Some 3) = Some Spring
   \<and> get_season (Some 4) = Some Spring \<and> get_season (Some 5) = Some Spring
   \<and> get_season (Some 6) = Some Summer \<and> get_season (Some 7) = Some Summer
   \<and> get_season (Some 8) = Some Summer \<and> get_season (Some 9) = Some Fall
   \<and> get_season (Some 10) = Some Fall \<and> get_season (Some 11) = Some Fall"
proof -
  have tbl: "get_season (Some m) = map_of season_table m \<and> get_season (Some m) \<noteq> None"
    if "m \<in> {1..12}" for m
  proof -
    from that have "1 \<le> m" and "m \<le> 12" by simp_all
    then have "m = 1 \<or> m = 2 \<or> m = 3 \<or> m = 4 \<or> m = 5 \<or> m = 6
        \<or> m = 7 \<or> m = 8 \<or> m = 9 \<or> m = 10 \<or> m = 11 \<or> m = 12"
      by arith
    then show ?thesis
      by (elim disjE) (simp_all add: season_table_def)
  qed
  have "get_season None = None" by simp
  moreover have "\<forall>m \<in> {1..12}. get_season (Some m) = map_of season_table m
                     \<and> get_season (Some m) \<noteq> None"
    using tbl by blast
  moreover have "get_season (Some 12) = Some Winter \<and> get_season (Some 1) = Some Winter
   \<and> get_season (Some 2) = Some Winter \<and> get_season (Some 3) = Some Spring
   \<and> get_season (Some 4) = Some Spring \<and> get_season (Some 5) = Some Spring
   \<and> get_season (Some 6) = Some Summer \<and> get_season (Some 7) = Some Summer
   \<and> get_season (Some 8) = Some Summer \<and> get_season (Some 9) = Some Fall
   \<and> get_season (Some 10) = Some Fall \<and> get_season (Some 11) = Some Fall"
    by simp
  ultimately show ?thesis by blast
qed

theorem get_season_mapping_witness:
  "(7::int) \<in> {1..12} \<and> get_season (Some 7) = map_of season_table 7
   \<and> get_season (Some 7) = Some Summer"
  using get_season_mapping by (simp add: season_table_def)

text \<open>
  Claim C10. A month that is present but lies outside 1 to 12 (0, 13, a negative number)
  is classified as Fall: the last \<^verbatim>\<open>return\<close> is reached by every month that is in none
  of the three lists. Only the missing month gives a missing season.
\<close>

theorem get_season_out_of_range:
  "(m < 1 \<or> 12 < m \<longrightarrow> get_season (Some m) = Some Fall)
   \<and> (get_season x = None \<longleftrightarrow> x = None)"
  by (cases x) auto

theorem get_season_out_of_range_witness:
  "(13::int) > 12 \<and> get_season (Some 13) = Some Fall
   \<and> get_season (Some 0) = Some Fall \<and> get_season (Some (- 4)) = Some Fall"
  using get_season_out_of_range [of 13 None] get_season_out_of_range [of 0 None]
    get_season_out_of_range [of "- 4" None]
  by simp

section \<open>Properties of the column normalizer\<close>

lemma rows_set_column_map:
  "rows (set_column df col (map f (get_column df col))) = map (\<lambda>r. r(col := f (r col))) (rows df)"
  by (simp add: set_column_def get_column_def zip_map2 zip_same_conv_map comp_def)

lemma columns_set_column_present:
  "col \<in> set (columns df) \<Longrightarrow> columns (set_column df col vals) = columns df"
  by (simp add: set_column_def)

lemma get_column_set_column:
  "length vals = length (rows df) \<Longrightarrow> get_column (set_column df col vals) col = vals"
proof -
  assume len: "length vals = length (rows df)"
  have "get_column (set_column df col vals) col = map snd (zip (rows df) vals)"
    by (simp add: set_column_def get_column_def comp_def case_prod_unfold)
  also have "\<dots> = vals" using len by (simp add: map_snd_zip)
  finally show ?thesis .
qed

lemma clean_hours_Inr:
  assumes "clean_hours L df col = Inr (df', ev)"
  shows "col \<in> set (columns df)"
    and "columns df' = columns df"
    and "rows df' = map (\<lambda>r. r(col := clean_cell L (r col))) (rows df)"
    and "ev = (let n = length (filter isna (get_column df' col))
               in if n \<noteq> 0 then [Warn_nan n col] else [])"
proof -
  show c: "col \<in> set (columns df)"
    using assms by (auto simp: clean_hours_def split: if_splits)
  let ?d = "set_column df col (map (clean_cell L) (get_column df col))"
  let ?n = "length (filter isna (get_column ?d col))"
  have m: "map (to_numeric L)
              (map (\<lambda>c. str_strip (str_replace_comma (astype_str L c))) (get_column df col))
           = map (clean_cell L) (get_column df col)"
    by (simp add: clean_cell_def)
  have "clean_hours L df col = Inr (?d, if ?n \<noteq> 0 then [Warn_nan ?n col] else [])"
    unfolding clean_hours_def Let_def m using c by simp
  with assms have "Inr (df', ev) = (Inr (?d, if ?n \<noteq> 0 then [Warn_nan ?n col] else [])
      :: py_error + dataframe \<times> event list)"
    by (simp only:)
  then have df': "df' = ?d" and ev: "ev = (if ?n \<noteq> 0 then [Warn_nan ?n col] else [])"
    by (simp_all only: sum.inject prod.inject)
  show "columns df' = columns df"
    using c by (simp add: df' columns_set_column_present)
  show "rows df' = map (\<lambda>r. r(col := clean_cell L (r col))) (rows df)"
    by (simp add: df' rows_set_column_map)
  show "ev = (let n = length (filter isna (get_column df' col))
               in if n \<noteq> 0 then [Warn_nan n col] else [])"
    using ev by (simp add: df' Let_def)
qed

lemma clean_hours_total:
  "col \<in> set (columns df) \<Longrightarrow> \<exists>df' ev. clean_hours L df col = Inr (df', ev)"
  by (simp add: clean_hours_def Let_def)



lemma get_column_clean_hours:
  assumes "clean_hours L df col = Inr (df', ev)"
  shows "get_column df' col = map (clean_cell L) (get_column df col)"
  by (simp add: get_column_def clean_hours_Inr(3) [OF assms] comp_def)

text \<open>
  Claim C7. A column \<^verbatim>\<open>Hours Viewed\<close> that holds the three texts \<^verbatim>\<open>"1,234"\<close>,
  \<^verbatim>\<open>" 500 "\<close> and \<^verbatim>\<open>"abc"\<close> is cleaned to 1234, 500 and NaN, and the warning
  reports one missing value. The numeric parser is the library's: it reads \<^verbatim>\<open>1234\<close>
  and \<^verbatim>\<open>500\<close> as these numbers and does not read \<^verbatim>\<open>abc\<close>.
\<close>

theorem clean_hours_scenario:
  assumes "to_numeric_str L ''1234'' = Some 1234"
    and "to_numeric_str L ''500'' = Some 500"
    and "to_numeric_str L ''abc'' = None"
    and col: "''Hours Viewed'' \<in> set (columns df)"
    and vals: "get_column df ''Hours Viewed'' = [Str ''1,234'', Str '' 500 '', Str ''abc'']"
  shows "\<exists>df'. clean_hours L df ''Hours Viewed'' = Inr (df', [Warn_nan 1 ''Hours Viewed''])
           \<and> get_column df' ''Hours Viewed'' = [Num 1234, Num 500, NaN]"
proof -
  obtain df' ev where run: "clean_hours L df ''Hours Viewed'' = Inr (df', ev)"
    using clean_hours_total [OF col] by blast
  have c1: "clean_cell L (Str ''1,234'') = Num 1234"
    and c2: "clean_cell L (Str '' 500 '') = Num 500"
    and c3: "clean_cell L (Str ''abc'') = NaN"
    using assms(1-3)
    by (simp_all add: clean_cell_def astype_str_def str_replace_comma_def str_strip_def
        is_space_def to_numeric_def)
  have out: "get_column df' ''Hours Viewed'' = [Num 1234, Num 500, NaN]"
    by (simp add: get_column_clean_hours [OF run] vals c1 c2 c3)
  have "ev = [Warn_nan 1 ''Hours Viewed'']"
    using clean_hours_Inr(4) [OF run] by (simp add: out)
  with run out show ?thesis by simp
qed

lemma sample_raw_hours:
  "get_column sample_raw ''Hours Viewed'' = [Str ''1,234'', Str '' 500 '', Str ''abc'']"
  by (simp add: get_column_def sample_raw_def row_of_def)

lemma read_decimal_samples:
  "read_decimal ''1234'' = Some 1234" "read_decimal ''500'' = Some 500"
  "read_decimal ''abc'' = None" "read_decimal ''nan'' = None"
  by (simp_all add: read_decimal_def digit_of_def)


theorem clean_hours_scenario_witness:
  "\<exists>df'. clean_hours iso_pandas sample_raw ''Hours Viewed''
            = Inr (df', [Warn_nan 1 ''Hours Viewed''])
         \<and> get_column df' ''Hours Viewed'' = [Num 1234, Num 500, NaN]"
proof (rule clean_hours_scenario)
  show "to_numeric_str iso_pandas ''1234'' = Some 1234"
    and "to_numeric_str iso_pandas ''500'' = Some 500"
    and "to_numeric_str iso_pandas ''abc'' = None"
    by (simp_all add: iso_pandas_def read_decimal_samples)
  show "''Hours Viewed'' \<in> set (columns sample_raw)"
    by (simp add: sample_raw_def)
  show "get_column sample_raw ''Hours Viewed'' = [Str ''1,234'', Str '' 500 '', Str ''abc'']"
    by (rule sample_raw_hours)
qed


section \<open>Properties of the holiday matcher and of row order\<close>

lemma near_any_iff:
  "near_any ds w x \<longleftrightarrow> (\<exists>d. Some d \<in> set ds \<and> \<bar>td_days (x - d)\<bar> \<le> w)"
  by (auto simp: near_any_def list_ex_iff split: option.splits)

lemma mask_cell_True_iff:
  "mask_cell ds w c = Inr True \<longleftrightarrow> (\<exists>x. c = Ts x \<and> near_any ds w x)"
  by (cases c) auto

lemma apply_mask_filter:
  "apply_mask ds w (map f rs) = Inr m \<Longrightarrow>
     map fst (filter snd (zip rs m)) = filter (\<lambda>r. mask_cell ds w (f r) = Inr True) rs"
proof (induction rs arbitrary: m)
  case Nil
  then show ?case by simp
next
  case (Cons r rs)
  then show ?case
    by (auto split: sum.splits)
qed


lemma holiday_rows:
  assumes run: "holiday_release_analysis L df imp w = Inr (hr, ev)"
    and col: "''Release Date'' \<in> set (columns df)"
    and refs: "to_datetime_list L (case imp of None \<Rightarrow> default_important_dates | Some l \<Rightarrow> l)
               = Inr ds"
  shows "rows hr = filter (in_window ds w) (rows df)" and "columns hr = columns df"
proof -
  from run col refs obtain m where
    m: "apply_mask ds w (map (\<lambda>r. r ''Release Date'') (rows df)) = Inr m"
    and hr: "hr = boolean_index df m"
    by (auto simp: holiday_release_analysis_def get_column_def Let_def
        split: sum.splits if_splits)
  show "rows hr = filter (in_window ds w) (rows df)"
    unfolding hr boolean_index_def
    by (simp add: apply_mask_filter [OF m] mask_cell_True_iff near_any_iff in_window_def [abs_def])
  show "columns hr = columns df"
    by (simp add: hr boolean_index_def)
qed

lemma td_days_0: "td_days 0 = 0"
  by (simp add: td_days_def)

text \<open>For a reference date at midnight, as the default dates are, the day difference
  that the matcher compares is the difference of the calendar days.\<close>

lemma td_days_midnight:
  assumes "d mod ns_per_day = 0"
  shows "td_days (x - d) = x div ns_per_day - d div ns_per_day"
proof -
  from assms have "ns_per_day dvd d" by (simp add: mod_eq_0_iff_dvd)
  then obtain k where d: "d = ns_per_day * k" by (rule dvdE)
  have nz: "ns_per_day \<noteq> 0" by (simp add: ns_per_day_def)
  have "x - d = x + (- k) * ns_per_day" by (simp add: d)
  then have "(x - d) div ns_per_day = x div ns_per_day + (- k)"
    by (simp only: div_mult_self1 [OF nz])
  moreover have "d div ns_per_day = k" using nz by (simp add: d)
  ultimately show ?thesis by (simp add: td_days_def)
qed

text \<open>
  Claim C1. For every window of at least 0 days the matcher keeps exactly the rows of the
  table whose release date is present and whose absolute day difference from at least one
  reference date is at most the window, in the order of the table. In particular a row
  whose date is a reference date is kept, a row whose day difference from every reference
  date is exactly the window plus one is dropped, and a row without a date is dropped.
\<close>

theorem holiday_window_match:
  assumes run: "holiday_release_analysis L df imp w = Inr (hr, ev)"
    and col: "''Release Date'' \<in> set (columns df)"
    and refs: "to_datetime_list L (case imp of None \<Rightarrow> default_important_dates | Some l \<Rightarrow> l)
               = Inr ds"
    and w: "0 \<le> w"
  shows "rows hr = filter (in_window ds w) (rows df)
    \<and> (\<forall>r. r \<in> set (rows hr) \<longleftrightarrow> r \<in> set (rows df) \<and> in_window ds w r)
    \<and> (\<forall>r \<in> set (rows df). \<forall>x. r ''Release Date'' = Ts x \<and> Some x \<in> set ds
          \<longrightarrow> r \<in> set (rows hr))
    \<and> (\<forall>r x. r ''Release Date'' = Ts x
          \<and> (\<forall>d. Some d \<in> set ds \<longrightarrow> \<bar>td_days (x - d)\<bar> = w + 1)
          \<longrightarrow> r \<notin> set (rows hr))
    \<and> (\<forall>r. isna (r ''Release Date'') \<longrightarrow> r \<notin> set (rows hr))"
proof -
  have rows: "rows hr = filter (in_window ds w) (rows df)"
    by (rule holiday_rows(1) [OF run col refs])
  have mem: "\<forall>r. r \<in> set (rows hr) \<longleftrightarrow> r \<in> set (rows df) \<and> in_window ds w r"
    by (simp add: rows)
  have same: "\<forall>r \<in> set (rows df). \<forall>x. r ''Release Date'' = Ts x \<and> Some x \<in> set ds
          \<longrightarrow> r \<in> set (rows hr)"
  proof (intro ballI allI impI)
    fix r x
    assume r: "r \<in> set (rows df)" and x: "r ''Release Date'' = Ts x \<and> Some x \<in> set ds"
    have "\<bar>td_days (x - x)\<bar> \<le> w" using w by (simp add: td_days_0)
    with x have "in_window ds w r" unfolding in_window_def by blast
    with r show "r \<in> set (rows hr)" by (simp add: rows)
  qed
  have far: "\<forall>r x. r ''Release Date'' = Ts x
          \<and> (\<forall>d. Some d \<in> set ds \<longrightarrow> \<bar>td_days (x - d)\<bar> = w + 1)
          \<longrightarrow> r \<notin> set (rows hr)"
  proof (intro allI impI)
    fix r x
    assume a: "r ''Release Date'' = Ts x
          \<and> (\<forall>d. Some d \<in> set ds \<longrightarrow> \<bar>td_days (x - d)\<bar> = w + 1)"
    have "\<not> in_window ds w r"
    proof
      assume "in_window ds w r"
      then obtain d where "Some d \<in> set ds" and "\<bar>td_days (x - d)\<bar> \<le> w"
        using a unfolding in_window_def by auto
      with a show False by fastforce
    qed
    then show "r \<notin> set (rows hr)" by (simp add: rows)
  qed
  have na: "\<forall>r. isna (r ''Release Date'') \<longrightarrow> r \<notin> set (rows hr)"
    by (auto simp: rows in_window_def)
  from rows mem same far na show ?thesis by blast
qed

lemma default_refs_iso:
  "to_datetime_list iso_pandas default_important_dates =
     Inr [Some (19358 * ns_per_day), Some (19402 * ns_per_day), Some (19542 * ns_per_day),
          Some (19661 * ns_per_day), Some (19716 * ns_per_day)]"
  by (simp add: default_important_dates_def iso_pandas_def read_iso_date_def digit_of_def
      days_in_month_def days_from_civil_def)

lemma sample_enriched_holiday:
  "holiday_release_analysis iso_pandas sample_enriched None 3 =
     Inr (boolean_index sample_enriched [True, False, False], [Saved_holiday_table])"
  by (simp add: holiday_release_analysis_def default_refs_iso sample_enriched_def
      get_column_def row_of_def near_any_def td_days_def ns_per_day_def boolean_index_def
      df_empty_def)

theorem holiday_window_match_witness:
  "\<exists>hr ev ds. holiday_release_analysis iso_pandas sample_enriched None 3 = Inr (hr, ev)
     \<and> ''Release Date'' \<in> set (columns sample_enriched)
     \<and> to_datetime_list iso_pandas default_important_dates = Inr ds
     \<and> (0::int) \<le> 3
     \<and> rows hr = filter (in_window ds 3) (rows sample_enriched)
     \<and> map (\<lambda>r. r ''Title'') (rows hr) = [Str ''A'']"
proof -
  let ?hr = "boolean_index sample_enriched [True, False, False]"
  have col: "''Release Date'' \<in> set (columns sample_enriched)"
    by (simp add: sample_enriched_def)
  have refs: "to_datetime_list iso_pandas
      (case None of None \<Rightarrow> default_important_dates | Some l \<Rightarrow> l) = Inr
        [Some (19358 * ns_per_day), Some (19402 * ns_per_day), Some (19542 * ns_per_day),
          Some (19661 * ns_per_day), Some (19716 * ns_per_day)]"
    by (simp add: default_refs_iso)
  have w: "(0::int) \<le> 3" by simp
  have titles: "map (\<lambda>r. r ''Title'') (rows ?hr) = [Str ''A'']"
    by (simp add: boolean_index_def sample_enriched_def row_of_def)
  have "rows ?hr = filter (in_window
        [Some (19358 * ns_per_day), Some (19402 * ns_per_day), Some (19542 * ns_per_day),
          Some (19661 * ns_per_day), Some (19716 * ns_per_day)] 3) (rows sample_enriched)"
    using holiday_window_match [OF sample_enriched_holiday col refs w] by (rule conjunct1)
  with col titles w show ?thesis
    by (intro exI conjI) (rule sample_enriched_holiday default_refs_iso | assumption)+
qed

lemma prepare_dates_Inr:
  assumes "prepare_dates L df dcol = Inr (df', ev)"
  shows "dcol \<in> set (columns df)"
    and "rows df' = map (\<lambda>r.
            let d = ts_cell (to_datetime L (r dcol))
            in r(dcol := d,
                 ''Release Month'' := dt_field (\<lambda>t. Num (of_int (dt_month L t))) d,
                 ''Release Day'' := dt_field (\<lambda>t. Str (dt_day_name L t)) d,
                 ''Release Year'' := dt_field (\<lambda>t. Num (of_int (dt_year L t))) d)) (rows df)"
proof -
  show c: "dcol \<in> set (columns df)"
    using assms by (auto simp: prepare_dates_def split: if_splits)
  have n1: "dcol \<noteq> ''Release Month''" and n2: "dcol \<noteq> ''Release Day''"
    using assms c by (auto simp: prepare_dates_def Let_def split: if_splits)
  let ?d1 = "set_column df dcol (map (\<lambda>c. ts_cell (to_datetime L c)) (get_column df dcol))"
  let ?d2 = "set_column ?d1 ''Release Month''
               (map (dt_field (\<lambda>t. Num (of_int (dt_month L t)))) (get_column ?d1 dcol))"
  let ?d3 = "set_column ?d2 ''Release Day''
               (map (dt_field (\<lambda>t. Str (dt_day_name L t))) (get_column ?d2 dcol))"
  let ?d4 = "set_column ?d3 ''Release Year''
               (map (dt_field (\<lambda>t. Num (of_int (dt_year L t)))) (get_column ?d3 dcol))"
  have "df' = ?d4"
    using assms c n1 n2 by (simp add: prepare_dates_def Let_def)
  moreover have "rows ?d4 = map (\<lambda>r.
            let d = ts_cell (to_datetime L (r dcol))
            in r(dcol := d,
                 ''Release Month'' := dt_field (\<lambda>t. Num (of_int (dt_month L t))) d,
                 ''Release Day'' := dt_field (\<lambda>t. Str (dt_day_name L t)) d,
                 ''Release Year'' := dt_field (\<lambda>t. Num (of_int (dt_year L t))) d)) (rows df)"
    using n1 n2
    by (simp add: set_column_def get_column_def comp_def zip_map2 zip_map1
        zip_same_conv_map Let_def case_prod_unfold)
  ultimately show "rows df' = map (\<lambda>r.
            let d = ts_cell (to_datetime L (r dcol))
            in r(dcol := d,
                 ''Release Month'' := dt_field (\<lambda>t. Num (of_int (dt_month L t))) d,
                 ''Release Day'' := dt_field (\<lambda>t. Str (dt_day_name L t)) d,
                 ''Release Year'' := dt_field (\<lambda>t. Num (of_int (dt_year L t))) d)) (rows df)"
    by simp
qed

lemma holiday_subseq:
  assumes "holiday_release_analysis L df imp w = Inr (hr, ev)"
  shows "subseq (rows hr) (rows df)"
proof (cases "''Release Date'' \<in> set (columns df)")
  case True
  from assms obtain ds where
    "to_datetime_list L (case imp of None \<Rightarrow> default_important_dates | Some l \<Rightarrow> l) = Inr ds"
    by (auto simp: holiday_release_analysis_def split: sum.splits)
  from holiday_rows(1) [OF assms True this] show ?thesis by simp
next
  case False
  with assms have "rows hr = []"
    by (auto simp: holiday_release_analysis_def split: sum.splits)
  then show ?thesis by simp
qed

text \<open>
  Claim C8. The column normalizer and the date enricher keep the number of rows and keep
  every row at its position: row \<open>i\<close> of the result is row \<open>i\<close> of the input
  with only the cleaned or derived cells changed. The holiday matcher returns a
  subsequence of the rows: the selected rows in their original relative order.
\<close>

theorem row_order_preserved:
  "(clean_hours L df col = Inr (df1, ev1) \<longrightarrow>
      length (rows df1) = length (rows df)
      \<and> rows df1 = map (\<lambda>r. r(col := clean_cell L (r col))) (rows df)
      \<and> (\<forall>i < length (rows df). \<forall>c. c \<noteq> col \<longrightarrow> (rows df1 ! i) c = (rows df ! i) c))
   \<and> (prepare_dates L df dcol = Inr (df2, ev2) \<longrightarrow>
      length (rows df2) = length (rows df)
      \<and> (\<forall>i < length (rows df). \<forall>c.
            c \<notin> {dcol, ''Release Month'', ''Release Day'', ''Release Year''} \<longrightarrow>
            (rows df2 ! i) c = (rows df ! i) c))
   \<and> (holiday_release_analysis L df imp w = Inr (hr, ev3) \<longrightarrow>
      subseq (rows hr) (rows df)
      \<and> (''Release Date'' \<in> set (columns df) \<longrightarrow>
           (\<exists>P. rows hr = filter P (rows df))))"
proof (intro conjI impI)
  assume a: "clean_hours L df col = Inr (df1, ev1)"
  show r1: "rows df1 = map (\<lambda>r. r(col := clean_cell L (r col))) (rows df)"
    by (rule clean_hours_Inr(3) [OF a])
  show "length (rows df1) = length (rows df)" by (simp add: r1)
  show "\<forall>i < length (rows df). \<forall>c. c \<noteq> col \<longrightarrow> (rows df1 ! i) c = (rows df ! i) c"
    by (simp add: r1)
next
  assume a: "prepare_dates L df dcol = Inr (df2, ev2)"
  note r2 = prepare_dates_Inr(2) [OF a]
  show "length (rows df2) = length (rows df)" by (simp add: r2)
  show "\<forall>i < length (rows df). \<forall>c.
            c \<notin> {dcol, ''Release Month'', ''Release Day'', ''Release Year''} \<longrightarrow>
            (rows df2 ! i) c = (rows df ! i) c"
    by (simp add: r2 Let_def)
next
  assume a: "holiday_release_analysis L df imp w = Inr (hr, ev3)"
  show "subseq (rows hr) (rows df)" by (rule holiday_subseq [OF a])
  assume c: "''Release Date'' \<in> set (columns df)"
  from a obtain ds where
    "to_datetime_list L (case imp of None \<Rightarrow> default_important_dates | Some l \<Rightarrow> l) = Inr ds"
    by (auto simp: holiday_release_analysis_def split: sum.splits)
  from holiday_rows(1) [OF a c this] show "\<exists>P. rows hr = filter P (rows df)" by blast
qed

lemma prepare_dates_total:
  "dcol \<in> set (columns df) \<Longrightarrow> dcol \<noteq> ''Release Month'' \<Longrightarrow> dcol \<noteq> ''Release Day''
     \<Longrightarrow> \<exists>df' ev. prepare_dates L df dcol = Inr (df', ev)"
  by (simp add: prepare_dates_def Let_def)

theorem row_order_preserved_witness:
  "\<exists>df1 ev1 df2 ev2 hr ev3.
      clean_hours iso_pandas sample_raw ''Hours Viewed'' = Inr (df1, ev1)
    \<and> prepare_dates iso_pandas sample_raw ''Release Date'' = Inr (df2, ev2)
    \<and> holiday_release_analysis iso_pandas sample_enriched None 3 = Inr (hr, ev3)
    \<and> length (rows df1) = 3 \<and> map (\<lambda>r. r ''Title'') (rows df1) = [Str ''A'', Str ''B'', Str ''C'']
    \<and> length (rows df2) = 3 \<and> map (\<lambda>r. r ''Title'') (rows df2) = [Str ''A'', Str ''B'', Str ''C'']
    \<and> subseq (rows hr) (rows sample_enriched)"
proof -
  obtain df1 ev1 where c: "clean_hours iso_pandas sample_raw ''Hours Viewed'' = Inr (df1, ev1)"
    using clean_hours_total [of "''Hours Viewed''" sample_raw iso_pandas]
    by (auto simp: sample_raw_def)
  obtain df2 ev2 where p: "prepare_dates iso_pandas sample_raw ''Release Date'' = Inr (df2, ev2)"
    using prepare_dates_total [of "''Release Date''" sample_raw iso_pandas]
    by (auto simp: sample_raw_def)
  note h = sample_enriched_holiday
  have len: "length (rows sample_raw) = 3" by (simp add: sample_raw_def)
  have t: "(rows sample_raw ! 0) ''Title'' = Str ''A''"
    "(rows sample_raw ! Suc 0) ''Title'' = Str ''B''"
    "(rows sample_raw ! Suc (Suc 0)) ''Title'' = Str ''C''"
    by (simp_all add: sample_raw_def row_of_def)
  have nc: "''Title'' \<noteq> ''Hours Viewed''"
    "''Title'' \<notin> {''Release Date'', ''Release Month'', ''Release Day'', ''Release Year''}"
    by simp_all
  from row_order_preserved [of iso_pandas sample_raw "''Hours Viewed''" df1 ev1
      "''Release Date''" df2 ev2 None 3 "boolean_index sample_raw []" "[]"] c p
  have l1: "length (rows df1) = 3" and l2: "length (rows df2) = 3"
    and k1: "\<forall>i < 3. (rows df1 ! i) ''Title'' = (rows sample_raw ! i) ''Title''"
    and k2: "\<forall>i < 3. (rows df2 ! i) ''Title'' = (rows sample_raw ! i) ''Title''"
    using len nc by auto
  have m1: "map (\<lambda>r. r ''Title'') (rows df1) = [Str ''A'', Str ''B'', Str ''C'']"
    using l1 k1 t by (auto simp: list_eq_iff_nth_eq less_Suc_eq numeral_3_eq_3)
  have m2: "map (\<lambda>r. r ''Title'') (rows df2) = [Str ''A'', Str ''B'', Str ''C'']"
    using l2 k2 t by (auto simp: list_eq_iff_nth_eq less_Suc_eq numeral_3_eq_3)
  from row_order_preserved [of iso_pandas sample_enriched "''Hours Viewed''" df1 ev1
      "''Release Date''" df2 ev2 None 3 "boolean_index sample_enriched [True, False, False]"
      "[Saved_holiday_table]"] h
  have s: "subseq (rows (boolean_index sample_enriched [True, False, False])) (rows sample_enriched)"
    by blast
  from c p h l1 m1 l2 m2 s show ?thesis
    by (intro exI conjI) assumption+
qed

section \<open>Properties of the month aggregation\<close>




lemma map_of_keys:
  "map_of s k = None \<longleftrightarrow> k \<notin> set (map fst s)"
  by (simp add: map_of_eq_None_iff)









lemma sample_enriched_columns:
  "get_column sample_enriched ''Release Month'' = [Num 12, Num 12, NaN]"
  "get_column sample_enriched ''Hours Viewed'' = [Num 1234, Num 500, NaN]"
  by (simp_all add: get_column_def sample_enriched_def row_of_def)


section \<open>Properties of the Top-N selector\<close>

lemma insort_key_lex:
  "sorted_wrt (lex_before f) ys \<Longrightarrow> \<forall>y \<in> set ys. x < y \<Longrightarrow>
     sorted_wrt (lex_before f) (insort_key f x ys)"
proof (induction ys)
  case Nil
  then show ?case by simp
next
  case (Cons y ys)
  show ?case
  proof (cases "f x \<le> f y")
    case True
    have "lex_before f x z" if "z \<in> set (y # ys)" for z
    proof -
      have "f y \<le> f z" using Cons.prems(1) that by (auto simp: lex_before_def)
      moreover have "x < z" using Cons.prems(2) that by auto
      ultimately show ?thesis using True by (auto simp: lex_before_def)
    qed
    with True Cons.prems(1) show ?thesis by simp
  next
    case False
    then have "lex_before f y x" by (simp add: lex_before_def)
    moreover have "sorted_wrt (lex_before f) (insort_key f x ys)"
      using Cons by simp
    ultimately show ?thesis
      using False Cons.prems(1) by (auto simp: set_insort_key)
  qed
qed

lemma sort_key_lex:
  "sorted_wrt (<) xs \<Longrightarrow> sorted_wrt (lex_before f) (sort_key f xs)"
proof (induction xs)
  case Nil
  then show ?case by simp
next
  case (Cons x xs)
  then have "sorted_wrt (lex_before f) (sort_key f xs)" by simp
  moreover have "\<forall>y \<in> set (sort_key f xs). x < y" using Cons.prems by simp
  ultimately show ?case by (simp add: insort_key_lex)
qed

lemma nlargest_indexer_ranked:
  "nlargest_indexer vals n = take (nat n) (ranked vals)"
  by (simp add: nlargest_indexer_def ranked_def Let_def)

lemma set_ranked: "set (ranked vals) = {0..<length vals}"
  by (auto simp: ranked_def)

lemma distinct_ranked: "distinct (ranked vals)"
  by (auto simp: ranked_def)

lemma length_ranked: "length (ranked vals) = length vals"
proof -
  have "length (ranked vals) = card (set (ranked vals))"
    by (simp add: distinct_card distinct_ranked)
  then show ?thesis by (simp add: set_ranked)
qed

lemma sorted_ranked: "sorted_wrt (ranks_before vals) (ranked vals)"
proof -
  let ?f = "\<lambda>i. - order_key (vals ! i)"
  let ?dropped = "filter (\<lambda>i. \<not> isna (vals ! i)) [0..<length vals]"
  let ?nan = "filter (\<lambda>i. isna (vals ! i)) [0..<length vals]"
  have "sorted_wrt (<) ?dropped" by (simp add: sorted_wrt_filter)
  then have "sorted_wrt (lex_before ?f) (sort_key ?f ?dropped)" by (rule sort_key_lex)
  then have a: "sorted_wrt (ranks_before vals) (sort_key ?f ?dropped)"
    by (rule sorted_wrt_mono_rel [rotated]) (auto simp: lex_before_def ranks_before_def)
  have "sorted_wrt (<) ?nan" by (simp add: sorted_wrt_filter)
  then have b: "sorted_wrt (ranks_before vals) ?nan"
    by (rule sorted_wrt_mono_rel [rotated]) (auto simp: ranks_before_def)
  have c: "\<forall>i \<in> set (sort_key ?f ?dropped). \<forall>j \<in> set ?nan. ranks_before vals i j"
    by (auto simp: ranks_before_def)
  from a b c show ?thesis
    unfolding ranked_def by (simp add: sorted_wrt_append)
qed

lemma take_ranks_before:
  assumes "i \<in> set (take k (ranked vals))" and "j < length vals"
    and "j \<notin> set (take k (ranked vals))"
  shows "ranks_before vals i j"
proof -
  have "j \<in> set (ranked vals)" using assms(2) by (simp add: set_ranked)
  then have "j \<in> set (take k (ranked vals)) \<union> set (drop k (ranked vals))"
    by (simp flip: set_append)
  with assms(3) have j: "j \<in> set (drop k (ranked vals))" by simp
  have "sorted_wrt (ranks_before vals) (take k (ranked vals) @ drop k (ranked vals))"
    by (simp add: sorted_ranked)
  with assms(1) j show ?thesis unfolding sorted_wrt_append by blast
qed

lemma nlargest_Inr:
  assumes "nlargest df n col = Inr top_df"
  shows "col \<in> set (columns df)"
    and "top_df = take_rows df (take (nat n) (ranked (get_column df col)))"
  using assms by (auto simp: nlargest_def nlargest_indexer_ranked split: if_splits)

lemma valued_take_ranked:
  "filter (\<lambda>i. \<not> isna (vals ! i)) (take k (ranked vals))
     = take k (sort_key (\<lambda>i. - order_key (vals ! i))
                 (filter (\<lambda>i. \<not> isna (vals ! i)) [0..<length vals]))"
proof -
  let ?P = "\<lambda>i. \<not> isna (vals ! i)"
  let ?S = "sort_key (\<lambda>i. - order_key (vals ! i)) (filter ?P [0..<length vals])"
  let ?N = "filter (\<lambda>i. isna (vals ! i)) [0..<length vals]"
  have s: "filter ?P (take k ?S) = take k ?S"
    by (rule filter_True) (auto dest: in_set_takeD)
  have n: "filter ?P (take (k - length ?S) ?N) = []"
    by (rule filter_False) (auto dest: in_set_takeD)
  show ?thesis
    unfolding ranked_def take_append filter_append s n by simp
qed

lemma get_column_nth:
  "i < length (rows df) \<Longrightarrow> get_column df col ! i = (rows df ! i) col"
  by (simp add: get_column_def)

lemma length_get_column: "length (get_column df col) = length (rows df)"
  by (simp add: get_column_def)

lemma count_valued_positions:
  "length (filter (\<lambda>i. \<not> isna (get_column df col ! i)) [0..<length (rows df)])
     = length (filter (\<lambda>r. \<not> isna (r col)) (rows df))"
proof -
  have "filter (\<lambda>r. \<not> isna (r col)) (rows df)
      = filter (\<lambda>r. \<not> isna (r col)) (map (\<lambda>i. rows df ! i) [0..<length (rows df)])"
    by (simp add: map_nth)
  also have "\<dots> = map (\<lambda>i. rows df ! i)
      (filter (\<lambda>i. \<not> isna ((rows df ! i) col)) [0..<length (rows df)])"
    by (simp add: filter_map comp_def)
  also have "filter (\<lambda>i. \<not> isna ((rows df ! i) col)) [0..<length (rows df)]
      = filter (\<lambda>i. \<not> isna (get_column df col ! i)) [0..<length (rows df)]"
    by (rule filter_cong) (simp_all add: get_column_nth)
  finally show ?thesis by simp
qed

lemma take_ranked_bounds:
  "set (take k (ranked (get_column df col))) \<subseteq> {0..<length (rows df)}"
  using set_take_subset [of k "ranked (get_column df col)"]
  by (simp add: set_ranked length_get_column)

text \<open>
  Claim C5. For every table with a numeric viewership column and every integer \<open>N\<close>,
  Top-N selection returns rows of the table at distinct positions, \<open>min N (number of rows)\<close>
  of them (none for \<open>N \<le> 0\<close>), so at most \<open>N\<close> and fewer only if the table has
  fewer rows. Every selected row ranks before every row that is not selected: its value is
  at least as large (a missing value counts as smaller than every value), and of two rows
  with the same cell the selected one is the earlier in the table. The selected rows are
  returned in this ranking order.
\<close>

theorem top_n_selection:
  assumes col: "col \<in> set (columns df)"
    and numeric: "\<not> list_ex is_str (get_column df col)"
  shows "\<exists>top_df idx. nlargest df n col = Inr top_df
      \<and> rows top_df = map (\<lambda>i. rows df ! i) idx
      \<and> distinct idx \<and> set idx \<subseteq> {0..<length (rows df)}
      \<and> length (rows top_df) = min (nat n) (length (rows df))
      \<and> sorted_wrt (ranks_before (get_column df col)) idx
      \<and> (\<forall>i \<in> set idx. \<forall>j < length (rows df). j \<notin> set idx \<longrightarrow>
            ranks_before (get_column df col) i j
            \<and> (\<not> isna ((rows df ! j) col) \<longrightarrow>
                 \<not> isna ((rows df ! i) col)
                 \<and> order_key ((rows df ! j) col) \<le> order_key ((rows df ! i) col))
            \<and> ((rows df ! i) col = (rows df ! j) col \<longrightarrow> i < j))"
proof -
  let ?vals = "get_column df col"
  let ?idx = "take (nat n) (ranked ?vals)"
  obtain top_df where run: "nlargest df n col = Inr top_df"
    using col numeric by (simp add: nlargest_def)
  have top_df: "top_df = take_rows df ?idx" by (rule nlargest_Inr(2) [OF run])
  have r: "rows top_df = map (\<lambda>i. rows df ! i) ?idx"
    by (simp add: top_df take_rows_def)
  have d: "distinct ?idx" by (simp add: distinct_ranked)
  have b: "set ?idx \<subseteq> {0..<length (rows df)}" by (rule take_ranked_bounds)
  have l: "length (rows top_df) = min (nat n) (length (rows df))"
    by (simp add: r length_ranked length_get_column min.commute)
  have s: "sorted_wrt (ranks_before ?vals) ?idx"
    using sorted_ranked [of ?vals] by (rule sorted_wrt_take)
  have c: "\<forall>i \<in> set ?idx. \<forall>j < length (rows df). j \<notin> set ?idx \<longrightarrow>
            ranks_before ?vals i j
            \<and> (\<not> isna ((rows df ! j) col) \<longrightarrow>
                 \<not> isna ((rows df ! i) col)
                 \<and> order_key ((rows df ! j) col) \<le> order_key ((rows df ! i) col))
            \<and> ((rows df ! i) col = (rows df ! j) col \<longrightarrow> i < j)"
  proof (intro ballI allI impI)
    fix i j
    assume i: "i \<in> set ?idx" and j: "j < length (rows df)" and nj: "j \<notin> set ?idx"
    from i b have il: "i < length (rows df)" by auto
    have rb: "ranks_before ?vals i j"
      using take_ranks_before [OF i _ nj] j by (simp add: length_get_column)
    then show "ranks_before ?vals i j
            \<and> (\<not> isna ((rows df ! j) col) \<longrightarrow>
                 \<not> isna ((rows df ! i) col)
                 \<and> order_key ((rows df ! j) col) \<le> order_key ((rows df ! i) col))
            \<and> ((rows df ! i) col = (rows df ! j) col \<longrightarrow> i < j)"
      using il j by (auto simp: ranks_before_def get_column_nth split: if_splits)
  qed
  from run r d b l s c show ?thesis by blast
qed

text \<open>
  Claim C9, amended. Top-N selection does not exclude rows with a missing viewership
  value: it ranks them after the rows that have a value. The result has
  \<open>min N (number of rows)\<close> rows, of which \<open>min N (number of rows with a value)\<close>
  have a value; a row with a missing value is returned only when fewer than \<open>N\<close> rows
  have a value, and in the result no row with a value follows a row without.
\<close>

theorem top_n_missing_last:
  assumes run: "nlargest df n col = Inr top_df"
  shows "length (rows top_df) = min (nat n) (length (rows df))
     \<and> length (filter (\<lambda>r. \<not> isna (r col)) (rows top_df))
         = min (nat n) (length (filter (\<lambda>r. \<not> isna (r col)) (rows df)))
     \<and> ((\<exists>r \<in> set (rows top_df). isna (r col)) \<longrightarrow>
           length (filter (\<lambda>r. \<not> isna (r col)) (rows df)) < nat n)
     \<and> (\<forall>i j. i < j \<and> j < length (rows top_df) \<and> isna ((rows top_df ! i) col) \<longrightarrow>
           isna ((rows top_df ! j) col))"
proof -
  let ?vals = "get_column df col"
  let ?idx = "take (nat n) (ranked ?vals)"
  let ?P = "\<lambda>r. \<not> isna (r col)"
  have top_df: "top_df = take_rows df ?idx" by (rule nlargest_Inr(2) [OF run])
  have r: "rows top_df = map (\<lambda>i. rows df ! i) ?idx"
    by (simp add: top_df take_rows_def)
  have b: "set ?idx \<subseteq> {0..<length (rows df)}" by (rule take_ranked_bounds)
  have l: "length (rows top_df) = min (nat n) (length (rows df))"
    by (simp add: r length_ranked length_get_column min.commute)
  have "filter ?P (rows top_df) = map (\<lambda>i. rows df ! i) (filter (\<lambda>i. ?P (rows df ! i)) ?idx)"
    by (simp add: r filter_map comp_def)
  also have "filter (\<lambda>i. ?P (rows df ! i)) ?idx = filter (\<lambda>i. \<not> isna (?vals ! i)) ?idx"
    using b by (intro filter_cong) (auto simp: get_column_nth)
  finally have "length (filter ?P (rows top_df))
      = length (filter (\<lambda>i. \<not> isna (?vals ! i)) ?idx)"
    by simp
  also have "\<dots> = min (nat n) (length (filter (\<lambda>i. \<not> isna (?vals ! i)) [0..<length ?vals]))"
    by (simp add: valued_take_ranked min.commute)
  also have "\<dots> = min (nat n) (length (filter ?P (rows df)))"
    using count_valued_positions [of df col] by (simp add: length_get_column)
  finally have v: "length (filter ?P (rows top_df)) = min (nat n) (length (filter ?P (rows df)))" .
  have m: "length (filter ?P (rows df)) < nat n" if "\<exists>r \<in> set (rows top_df). isna (r col)"
  proof -
    from that obtain r where "r \<in> set (rows top_df)" and "\<not> ?P r" by auto
    then have "length (filter ?P (rows top_df)) < length (rows top_df)"
      using length_filter_less [of r "rows top_df" ?P] by blast
    with v l show ?thesis by (simp add: min_def split: if_splits)
  qed
  have s: "sorted_wrt (ranks_before ?vals) ?idx"
    using sorted_ranked [of ?vals] by (rule sorted_wrt_take)
  have o: "\<forall>i j. i < j \<and> j < length (rows top_df) \<and> isna ((rows top_df ! i) col) \<longrightarrow>
           isna ((rows top_df ! j) col)"
  proof (intro allI impI)
    fix i j
    define idx where "idx = ?idx"
    assume a: "i < j \<and> j < length (rows top_df) \<and> isna ((rows top_df ! i) col)"
    have r': "rows top_df = map (\<lambda>i. rows df ! i) idx" by (simp only: r idx_def)
    from a have ij: "i < j" and jl: "j < length idx" by (simp_all add: r')
    then have il: "i < length idx" by simp
    have s': "sorted_wrt (ranks_before ?vals) idx" using s by (simp only: idx_def)
    from s' ij jl have rb: "ranks_before ?vals (idx ! i) (idx ! j)"
      by (simp add: sorted_wrt_iff_nth_less)
    have "idx ! i \<in> set idx" and "idx ! j \<in> set idx"
      using il jl by (simp_all only: nth_mem)
    with b have bi: "idx ! i < length (rows df)" and bj: "idx ! j < length (rows df)"
      by (auto simp: idx_def)
    have ci: "(rows top_df ! i) col = ?vals ! (idx ! i)"
      using il bi by (simp add: r' get_column_nth)
    have cj: "(rows top_df ! j) col = ?vals ! (idx ! j)"
      using jl bj by (simp add: r' get_column_nth)
    from a have "isna (?vals ! (idx ! i))" by (simp add: ci)
    with rb have "isna (?vals ! (idx ! j))" by (simp add: ranks_before_def)
    then show "isna ((rows top_df ! j) col)" by (simp add: cj)
  qed
  have m': "(\<exists>r \<in> set (rows top_df). isna (r col)) \<longrightarrow>
           length (filter ?P (rows df)) < nat n"
    using m by (rule impI)
  show ?thesis
    by (intro conjI) (rule l, rule v, rule m', rule o)
qed

lemma upt3: "[0..<3] = [0, 1, 2]"
  by (simp add: upt_rec numeral_3_eq_3)

lemma sample_indexer:
  "nlargest_indexer [Num 1234, Num 500, NaN] 3 = [0, 1, 2]"
  "nlargest_indexer [Num 1234, Num 500, NaN] 1 = [0]"
  by (simp_all add: nlargest_indexer_def upt3)

lemma take_rows_all: "take_rows df [0..<length (rows df)] = df"
  by (simp add: take_rows_def map_nth)

lemma sample_enriched_top:
  "nlargest sample_enriched 3 ''Hours Viewed'' = Inr sample_enriched"
proof -
  have c: "''Hours Viewed'' \<in> set (columns sample_enriched)"
    by (simp add: sample_enriched_def)
  have l: "length (rows sample_enriched) = 3" by (simp add: sample_enriched_def)
  have "nlargest sample_enriched 3 ''Hours Viewed'' = Inr (take_rows sample_enriched [0, 1, 2])"
    using c by (simp add: nlargest_def sample_enriched_columns sample_indexer)
  also have "take_rows sample_enriched [0, 1, 2] = sample_enriched"
    using take_rows_all [of sample_enriched] by (simp only: l upt3)
  finally show ?thesis .
qed

lemma sample_enriched_top1:
  "nlargest sample_enriched 1 ''Hours Viewed'' = Inr (take_rows sample_enriched [0])"
proof -
  have c: "''Hours Viewed'' \<in> set (columns sample_enriched)"
    by (simp add: sample_enriched_def)
  show ?thesis
    using c by (simp add: nlargest_def sample_enriched_columns sample_indexer)
qed

text \<open>
  Claim C9 as stated fails: the sample table has three rows, the third without a
  viewership value, and the top 3 are the whole table, the row without a value included.
\<close>

theorem top_n_missing_counterexample:
  "nlargest sample_enriched 3 ''Hours Viewed'' = Inr sample_enriched
   \<and> length (rows sample_enriched) = 3
   \<and> get_column sample_enriched ''Hours Viewed'' = [Num 1234, Num 500, NaN]"
  by (simp add: sample_enriched_top sample_enriched_columns) (simp add: sample_enriched_def)

theorem top_n_selection_witness:
  "nlargest sample_enriched 1 ''Hours Viewed'' = Inr (take_rows sample_enriched [0])
   \<and> (\<exists>idx. rows (take_rows sample_enriched [0]) = map (\<lambda>i. rows sample_enriched ! i) idx
        \<and> distinct idx
        \<and> length (rows (take_rows sample_enriched [0]))
            = min (nat 1) (length (rows sample_enriched))
        \<and> sorted_wrt (ranks_before (get_column sample_enriched ''Hours Viewed'')) idx)
   \<and> get_column (take_rows sample_enriched [0]) ''Hours Viewed'' = [Num 1234]"
proof -
  have "get_column (take_rows sample_enriched [0]) ''Hours Viewed'' = [Num 1234]"
    by (simp add: get_column_def take_rows_def sample_enriched_def row_of_def)
  moreover have c: "''Hours Viewed'' \<in> set (columns sample_enriched)"
    and n: "\<not> list_ex is_str (get_column sample_enriched ''Hours Viewed'')"
    by (simp_all add: sample_enriched_columns) (simp add: sample_enriched_def)
  ultimately show ?thesis
    using top_n_selection [OF c n, of 1] sample_enriched_top1 by auto
qed

theorem top_n_missing_last_witness:
  "nlargest sample_enriched 3 ''Hours Viewed'' = Inr sample_enriched
   \<and> (\<exists>r \<in> set (rows sample_enriched). isna (r ''Hours Viewed''))
   \<and> length (rows sample_enriched) = min (nat 3) (length (rows sample_enriched))
   \<and> length (filter (\<lambda>r. \<not> isna (r ''Hours Viewed'')) (rows sample_enriched)) < nat 3"
proof -
  have "list_ex isna (get_column sample_enriched ''Hours Viewed'')"
    by (simp add: sample_enriched_columns)
  then have ex: "\<exists>r \<in> set (rows sample_enriched). isna (r ''Hours Viewed'')"
    by (simp add: get_column_def list_ex_iff)
  with top_n_missing_last [OF sample_enriched_top] sample_enriched_top show ?thesis
    by blast
qed

section \<open>Properties of the batch run\<close>

lemma call_Inl: "call (Inl x) f = Inl x"
  by (simp add: call_def)





























section \<open>The sample table through the pipeline\<close>

text \<open>
  With the library instance, the two preprocessing steps turn the raw sample table into
  the enriched sample table used above: same columns, same cells.
\<close>

lemma columns_set_column_list:
  "columns (set_column df c vals)
     = (if c \<in> set (columns df) then columns df else columns df @ [c])"
  by (simp add: set_column_def)

lemma sample_clean_cells:
  "clean_cell iso_pandas (Str ''1,234'') = Num 1234"
  "clean_cell iso_pandas (Str '' 500 '') = Num 500"
  "clean_cell iso_pandas (Str ''abc'') = NaN"
  by (simp_all add: clean_cell_def astype_str_def str_replace_comma_def str_strip_def
      is_space_def to_numeric_def iso_pandas_def read_decimal_samples)

lemma sample_dates:
  "to_datetime iso_pandas (Str ''2023-12-24'') = Some (19715 * ns_per_day)"
  "to_datetime iso_pandas (Str ''2023-12-20'') = Some (19711 * ns_per_day)"
  "to_datetime iso_pandas (Str ''soon'') = None"
  by (simp_all add: iso_pandas_def read_iso_date_def digit_of_def days_in_month_def
      days_from_civil_def)

lemma sample_fields:
  "dt_month iso_pandas (19715 * ns_per_day) = 12" "dt_month iso_pandas (19711 * ns_per_day) = 12"
  "dt_year iso_pandas (19715 * ns_per_day) = 2023" "dt_year iso_pandas (19711 * ns_per_day) = 2023"
  "dt_day_name iso_pandas (19715 * ns_per_day) = ''Sunday''"
  "dt_day_name iso_pandas (19711 * ns_per_day) = ''Wednesday''"
  by code_simp+

lemma prepare_dates_columns_list:
  assumes "prepare_dates L df dcol = Inr (df2, ev2)"
  shows "columns df2 =
      columns (set_column (set_column (set_column df ''Release Month'' []) ''Release Day'' [])
                 ''Release Year'' [])"
proof -
  have d: "dcol \<in> set (columns df)" by (rule prepare_dates_Inr(1) [OF assms])
  have n: "dcol \<noteq> ''Release Month''" "dcol \<noteq> ''Release Day''"
    using assms by (auto simp: prepare_dates_def Let_def split: if_splits)
  let ?d1 = "set_column df dcol (map (\<lambda>c. ts_cell (to_datetime L c)) (get_column df dcol))"
  let ?d2 = "set_column ?d1 ''Release Month''
               (map (dt_field (\<lambda>t. Num (of_int (dt_month L t)))) (get_column ?d1 dcol))"
  let ?d3 = "set_column ?d2 ''Release Day''
               (map (dt_field (\<lambda>t. Str (dt_day_name L t))) (get_column ?d2 dcol))"
  let ?d4 = "set_column ?d3 ''Release Year''
               (map (dt_field (\<lambda>t. Num (of_int (dt_year L t)))) (get_column ?d3 dcol))"
  have "df2 = ?d4" using assms d n by (simp add: prepare_dates_def Let_def)
  then show ?thesis using d by (simp add: columns_set_column_list)
qed

lemma sample_pipeline:
  "\<exists>df1 ev1 df2 ev2. clean_hours iso_pandas sample_raw ''Hours Viewed'' = Inr (df1, ev1)
     \<and> prepare_dates iso_pandas df1 ''Release Date'' = Inr (df2, ev2)
     \<and> columns df2 = columns sample_enriched
     \<and> map (get_column df2) (columns sample_enriched)
         = map (get_column sample_enriched) (columns sample_enriched)"
proof -
  obtain df1 ev1 where c: "clean_hours iso_pandas sample_raw ''Hours Viewed'' = Inr (df1, ev1)"
    using clean_hours_total [of "''Hours Viewed''" sample_raw iso_pandas]
    by (auto simp: sample_raw_def)
  have cols1: "columns df1 = columns sample_raw" by (rule clean_hours_Inr(2) [OF c])
  obtain df2 ev2 where p: "prepare_dates iso_pandas df1 ''Release Date'' = Inr (df2, ev2)"
    using prepare_dates_total [of "''Release Date''" df1 iso_pandas]
    by (auto simp: cols1 sample_raw_def)
  have r1: "rows df1 = map (\<lambda>r. r(''Hours Viewed'' := clean_cell iso_pandas (r ''Hours Viewed'')))
      (rows sample_raw)"
    by (rule clean_hours_Inr(3) [OF c])
  note r2 = prepare_dates_Inr(2) [OF p]
  have cols2: "columns df2 = columns sample_enriched"
    by (simp add: prepare_dates_columns_list [OF p] columns_set_column_list cols1
        sample_raw_def sample_enriched_def)
  have cells: "map (get_column df2) (columns sample_enriched)
         = map (get_column sample_enriched) (columns sample_enriched)"
    by (simp add: get_column_def r2 r1 Let_def sample_raw_def sample_enriched_def row_of_def
        sample_clean_cells sample_dates sample_fields ts_cell_def dt_field_def)
  from c p cols2 cells show ?thesis by blast
qed

end
